theory Spec2Isabelle
  imports Main "HOL-Library.Sublist" "HOL-Library.Multiset"
begin

section \<open>JavaScript values\<close>

text \<open>
  Span attributes are JSON-valued: string, number, boolean, or nested object/array.
  A property read of an absent key gives \<open>undefined\<close>, and the extractor writes
  \<open>null\<close> itself, so both are values of the model. Numbers are modelled as integers
  (the integral JavaScript numbers; fractional numbers, \<open>NaN\<close> and the infinities are
  left out of the model). Strings are byte strings (UTF-8). An object is the list of its own
  properties in enumeration order; a property read takes the first entry for the key.
\<close>

datatype jsval =
    JUndefined
  | JNull
  | JBool bool
  | JNum int
  | JStr string
  | JArr "jsval list"
  | JObj "(string \<times> jsval) list"

type_synonym jsobject = "(string \<times> jsval) list"

text \<open>ToBoolean: \<open>undefined\<close>, \<open>null\<close>, \<open>false\<close>, \<open>0\<close> and \<open>""\<close> are falsy;
  every object and array is truthy.\<close>

fun truthy :: "jsval \<Rightarrow> bool" where
  "truthy JUndefined = False"
| "truthy JNull = False"
| "truthy (JBool b) = b"
| "truthy (JNum n) = (n \<noteq> 0)"
| "truthy (JStr s) = (s \<noteq> [])"
| "truthy (JArr xs) = True"
| "truthy (JObj ps) = True"

text \<open>\<open>a || b\<close>: the left operand when it is truthy, the right operand otherwise.\<close>

definition js_or :: "jsval \<Rightarrow> jsval \<Rightarrow> jsval" where
  "js_or a b = (if truthy a then a else b)"

text \<open>The \<open>typeof\<close> operator (\<open>typeof null\<close> is \<open>"object"\<close>, as is that of an array).\<close>

fun typeof :: "jsval \<Rightarrow> string" where
  "typeof JUndefined = ''undefined''"
| "typeof JNull = ''object''"
| "typeof (JBool b) = ''boolean''"
| "typeof (JNum n) = ''number''"
| "typeof (JStr s) = ''string''"
| "typeof (JArr xs) = ''object''"
| "typeof (JObj ps) = ''object''"

text \<open>\<open>attrs[key]\<close>: the property's value, \<open>undefined\<close> when the object has no such key.\<close>

definition getAttr :: "jsobject \<Rightarrow> string \<Rightarrow> jsval" where
  "getAttr attrs k = (case map_of attrs k of None \<Rightarrow> JUndefined | Some v \<Rightarrow> v)"

text \<open>\<open>delete attrs[k]\<close>: the attributes without the key.\<close>

definition removeAttr :: "string \<Rightarrow> jsobject \<Rightarrow> jsobject" where
  "removeAttr k attrs = filter (\<lambda>p. fst p \<noteq> k) attrs"

subsection \<open>String operations\<close>

text \<open>\<open>String.prototype.toLowerCase\<close> on the ASCII letters; every other byte is kept.\<close>

definition lowerChar :: "char \<Rightarrow> char" where
  "lowerChar c =
     (case map_of (zip ''ABCDEFGHIJKLMNOPQRSTUVWXYZ'' ''abcdefghijklmnopqrstuvwxyz'') c of
        None \<Rightarrow> c
      | Some d \<Rightarrow> d)"

definition toLowerCase :: "string \<Rightarrow> string" where
  "toLowerCase s = map lowerChar s"

text \<open>\<open>s.includes(sub)\<close>: \<open>sub\<close> occurs in \<open>s\<close> as a contiguous substring.\<close>

fun startsWith :: "string \<Rightarrow> string \<Rightarrow> bool" where
  "startsWith s [] = True"
| "startsWith [] (c # cs) = False"
| "startsWith (d # ds) (c # cs) = (d = c \<and> startsWith ds cs)"

fun includes_str :: "string \<Rightarrow> string \<Rightarrow> bool" where
  "includes_str [] sub = (sub = [])"
| "includes_str (d # ds) sub = (startsWith (d # ds) sub \<or> includes_str ds sub)"

subsection \<open>JSON.stringify with an indentation of two spaces\<close>

text \<open>Number::toString of an integral number: its decimal digits, as JavaScript prints
  integral numbers of magnitude below \<open>10^21\<close>.\<close>

definition digitChar :: "nat \<Rightarrow> char" where
  "digitChar n = ''0123456789abcdef'' ! (n mod 16)"

function natToString :: "nat \<Rightarrow> string" where
  "natToString n =
     (if n < 10 then [digitChar n] else natToString (n div 10) @ [digitChar (n mod 10)])"
  by pat_completeness auto
termination
  by (relation "measure (\<lambda>n. n)") auto

definition numberToString :: "int \<Rightarrow> string" where
  "numberToString i = (if i < 0 then ''-'' @ natToString (nat (- i)) else natToString (nat i))"

text \<open>QuoteJSONString: the two-character escapes, \<open>\u00XX\<close> for the other control
  characters, every other character as it is.\<close>

definition backslash :: char where
  "backslash = CHR 0x5C"

definition dquote :: char where
  "dquote = CHR 0x22"

definition newline :: char where
  "newline = CHR 0x0A"

definition escapeChar :: "char \<Rightarrow> string" where
  "escapeChar c =
     (if c = CHR 0x08 then [backslash, CHR ''b'']
      else if c = CHR 0x09 then [backslash, CHR ''t'']
      else if c = CHR 0x0A then [backslash, CHR ''n'']
      else if c = CHR 0x0C then [backslash, CHR ''f'']
      else if c = CHR 0x0D then [backslash, CHR ''r'']
      else if c = dquote then [backslash, dquote]
      else if c = backslash then [backslash, backslash]
      else if (of_char c :: nat) < 32
        then [backslash, CHR ''u'', CHR ''0'', CHR ''0'',
              digitChar (of_char c div 16), digitChar (of_char c mod 16)]
      else [c])"

definition quoteJSONString :: "string \<Rightarrow> string" where
  "quoteJSONString s = [dquote] @ concat (map escapeChar s) @ [dquote]"

text \<open>Array.prototype.join.\<close>

fun joinWith :: "string \<Rightarrow> string list \<Rightarrow> string" where
  "joinWith sep [] = []"
| "joinWith sep [x] = x"
| "joinWith sep (x # y # ys) = x @ sep @ joinWith sep (y # ys)"

text \<open>
  SerializeJSONProperty with gap \<open>"  "\<close>; the first argument is the current indentation.
  \<open>None\<close> is the result \<open>undefined\<close>: an object property with that result is left out,
  an array element with that result is written \<open>null\<close>.
\<close>

fun serializeJSON :: "string \<Rightarrow> jsval \<Rightarrow> string option" where
  "serializeJSON ind JUndefined = None"
| "serializeJSON ind JNull = Some ''null''"
| "serializeJSON ind (JBool b) = Some (if b then ''true'' else ''false'')"
| "serializeJSON ind (JNum n) = Some (numberToString n)"
| "serializeJSON ind (JStr s) = Some (quoteJSONString s)"
| "serializeJSON ind (JArr xs) =
     (let partial = map (\<lambda>x. case serializeJSON (ind @ ''  '') x of
                                 None \<Rightarrow> ''null'' | Some t \<Rightarrow> t) xs
      in Some (if partial = [] then ''[]''
               else ''['' @ [newline] @ (ind @ ''  '')
                    @ joinWith ('','' @ [newline] @ (ind @ ''  '')) partial
                    @ [newline] @ ind @ '']''))"
| "serializeJSON ind (JObj ps) =
     (let partial = concat (map (\<lambda>p. case serializeJSON (ind @ ''  '') (snd p) of
                                         None \<Rightarrow> []
                                       | Some t \<Rightarrow> [quoteJSONString (fst p) @ '': '' @ t]) ps)
      in Some (if partial = [] then ''{}''
               else ''{'' @ [newline] @ (ind @ ''  '')
                    @ joinWith ('','' @ [newline] @ (ind @ ''  '')) partial
                    @ [newline] @ ind @ ''}''))"

text \<open>\<open>JSON.stringify(value, null, 2)\<close>: a string, or \<open>undefined\<close>.\<close>

definition JSON_stringify :: "jsval \<Rightarrow> jsval" where
  "JSON_stringify v = (case serializeJSON [] v of None \<Rightarrow> JUndefined | Some t \<Rightarrow> JStr t)"

section \<open>Spans and the extraction result\<close>

datatype SpanStatus = OK | ERROR | UNSET

text \<open>Modelled from the spec: the type \<open>Span\<close> of \<open>@/types\<close>, whose declaration is not among
  the sources. The fields are those of the specification's data model, which are also the ones
  the test helper \<open>createSpan\<close> fills. \<open>parentSpanId\<close> is optional; \<open>attributes\<close> may be
  missing (the extractor reads \<open>span.attributes || {}\<close>, the flyout
  \<open>span.attributes?.[...]\<close>).\<close>

record Span =
  spanId :: string
  traceId :: string
  parentSpanId :: "string option"
  name :: string
  startTime :: string
  endTime :: string
  status :: SpanStatus
  attributes :: "jsobject option"

datatype Category = Agent | Llm | Tool | Other

text \<open>\<open>SpanIOData\<close>. The fields \<open>input\<close> and \<open>output\<close> are named \<open>ioInput\<close> and
  \<open>ioOutput\<close> here (\<open>output\<close> is a keyword of Isabelle). They are declared
  \<open>string | null\<close> and filled through a cast, \<open>toolName\<close> and \<open>modelId\<close> are optional:
  all four hold whatever value the expressions of the source produce.\<close>

record SpanIOData =
  span :: Span
  category :: Category
  ioInput :: jsval
  ioOutput :: jsval
  toolName :: jsval
  modelId :: jsval

section \<open>extractSpanIO\<close>

text \<open>\<open>const attrs = span.attributes || {}\<close>\<close>

definition attrsOf :: "Span \<Rightarrow> jsobject" where
  "attrsOf sp = (case attributes sp of None \<Rightarrow> [] | Some a \<Rightarrow> a)"

text \<open>Determine category: the \<open>if\<close> / \<open>else if\<close> chain over the lower-cased name and
  the attributes; \<open>category\<close> starts as \<open>other\<close>.\<close>

definition determineCategory :: "string \<Rightarrow> jsobject \<Rightarrow> Category" where
  "determineCategory nm attrs =
     (if truthy (js_or (JBool (includes_str nm ''agent'')) (getAttr attrs ''gen_ai.agent.name''))
        then Agent
      else if truthy (js_or (js_or (js_or (JBool (includes_str nm ''llm''))
                                          (JBool (includes_str nm ''bedrock'')))
                                   (JBool (includes_str nm ''converse'')))
                            (getAttr attrs ''gen_ai.system''))
        then Llm
      else if truthy (js_or (JBool (includes_str nm ''tool'')) (getAttr attrs ''gen_ai.tool.name''))
        then Tool
      else Other)"

text \<open>The \<open>||\<close> chains of the three category blocks and of the generic fallback.\<close>

definition llmInput :: "jsobject \<Rightarrow> jsval" where
  "llmInput attrs =
     js_or (js_or (js_or (js_or (js_or (getAttr attrs ''gen_ai.prompt'')
                                       (getAttr attrs ''gen_ai.prompt.0.content''))
                                (getAttr attrs ''llm.prompts''))
                         (getAttr attrs ''llm.input_messages''))
                  (getAttr attrs ''input.value''))
           JNull"

definition llmOutput :: "jsobject \<Rightarrow> jsval" where
  "llmOutput attrs =
     js_or (js_or (js_or (js_or (js_or (getAttr attrs ''gen_ai.completion'')
                                       (getAttr attrs ''gen_ai.completion.0.content''))
                                (getAttr attrs ''llm.completions''))
                         (getAttr attrs ''llm.output_messages''))
                  (getAttr attrs ''output.value''))
           JNull"

definition toolInput :: "jsobject \<Rightarrow> jsval" where
  "toolInput attrs =
     js_or (js_or (js_or (js_or (getAttr attrs ''gen_ai.tool.input'')
                                (getAttr attrs ''tool.input''))
                         (getAttr attrs ''input.value''))
                  (getAttr attrs ''tool.parameters''))
           JNull"

definition toolOutput :: "jsobject \<Rightarrow> jsval" where
  "toolOutput attrs =
     js_or (js_or (js_or (js_or (getAttr attrs ''gen_ai.tool.output'')
                                (getAttr attrs ''tool.output''))
                         (getAttr attrs ''output.value''))
                  (getAttr attrs ''tool.result''))
           JNull"

definition agentInput :: "jsobject \<Rightarrow> jsval" where
  "agentInput attrs =
     js_or (js_or (js_or (js_or (getAttr attrs ''gen_ai.agent.input'')
                                (getAttr attrs ''agent.input''))
                         (getAttr attrs ''input.value''))
                  (getAttr attrs ''user.message''))
           JNull"

definition agentOutput :: "jsobject \<Rightarrow> jsval" where
  "agentOutput attrs =
     js_or (js_or (js_or (js_or (getAttr attrs ''gen_ai.agent.output'')
                                (getAttr attrs ''agent.output''))
                         (getAttr attrs ''output.value''))
                  (getAttr attrs ''assistant.message''))
           JNull"

definition genericInput :: "jsobject \<Rightarrow> jsval" where
  "genericInput attrs =
     js_or (js_or (js_or (getAttr attrs ''input'') (getAttr attrs ''request''))
                  (getAttr attrs ''message''))
           JNull"

definition genericOutput :: "jsobject \<Rightarrow> jsval" where
  "genericOutput attrs =
     js_or (js_or (js_or (getAttr attrs ''output'') (getAttr attrs ''response''))
                  (getAttr attrs ''result''))
           JNull"

text \<open>The value of the variable \<open>input\<close> (\<open>output\<close>) after the three category blocks and the
  generic fallback, before the conversion of objects: each \<open>let\<close> is one assignment.\<close>

definition resolveInput :: "Category \<Rightarrow> jsobject \<Rightarrow> jsval" where
  "resolveInput cat attrs =
     (let input = JNull;
          input = (if cat = Llm then llmInput attrs else input);
          input = (if cat = Tool then toolInput attrs else input);
          input = (if cat = Agent then agentInput attrs else input);
          input = (if \<not> truthy input then genericInput attrs else input)
      in input)"

definition resolveOutput :: "Category \<Rightarrow> jsobject \<Rightarrow> jsval" where
  "resolveOutput cat attrs =
     (let output = JNull;
          output = (if cat = Llm then llmOutput attrs else output);
          output = (if cat = Tool then toolOutput attrs else output);
          output = (if cat = Agent then agentOutput attrs else output);
          output = (if \<not> truthy output then genericOutput attrs else output)
      in output)"

text \<open>Convert objects to JSON string:
  \<open>if (input && typeof input === 'object') input = JSON.stringify(input, null, 2)\<close>.\<close>

definition convertObject :: "jsval \<Rightarrow> jsval" where
  "convertObject v = (if truthy v \<and> typeof v = ''object'' then JSON_stringify v else v)"

text \<open>The function body reads its argument only and assigns to its own local variables only;
  it is embedded as a function from the span to the result.\<close>

definition extractSpanIO :: "Span \<Rightarrow> SpanIOData" where
  "extractSpanIO sp =
     (let attrs = attrsOf sp;
          nm = toLowerCase (name sp);
          cat = determineCategory nm attrs
      in \<lparr> span = sp,
           category = cat,
           ioInput = convertObject (resolveInput cat attrs),
           ioOutput = convertObject (resolveOutput cat attrs),
           toolName = js_or (getAttr attrs ''gen_ai.tool.name'') (getAttr attrs ''tool.name''),
           modelId = js_or (js_or (getAttr attrs ''gen_ai.request.model'')
                                  (getAttr attrs ''llm.model_name''))
                           (getAttr attrs ''gen_ai.system'') \<rparr>)"

section \<open>Category statistics\<close>

record CategoryCounts =
  agent :: nat
  llm :: nat
  tool :: nat
  other :: nat

text \<open>\<open>spanStats.byCategory\<close> of TraceFlyoutContent: the reducer over \<open>trace.spans\<close>,
  started at all zeros.\<close>

definition byCategoryStep :: "CategoryCounts \<Rightarrow> Span \<Rightarrow> CategoryCounts" where
  "byCategoryStep acc sp =
     (let nm = toLowerCase (name sp)
      in if truthy (js_or (js_or (JBool (includes_str nm ''llm''))
                                 (JBool (includes_str nm ''bedrock'')))
                          (JBool (includes_str nm ''converse'')))
           then acc\<lparr>llm := llm acc + 1\<rparr>
         else if truthy (js_or (JBool (includes_str nm ''tool''))
                               (case attributes sp of
                                  None \<Rightarrow> JUndefined
                                | Some a \<Rightarrow> getAttr a ''gen_ai.tool.name''))
           then acc\<lparr>tool := tool acc + 1\<rparr>
         else if includes_str nm ''agent''
           then acc\<lparr>agent := agent acc + 1\<rparr>
         else acc\<lparr>other := other acc + 1\<rparr>)"

definition byCategory :: "Span list \<Rightarrow> CategoryCounts" where
  "byCategory spans = foldl byCategoryStep \<lparr>agent = 0, llm = 0, tool = 0, other = 0\<rparr> spans"

text \<open>The category counts over the extraction results (\<open>acc[data.category]++\<close>), as the
  Input/Output view's tests compute them.\<close>

definition categoryCountsStep :: "CategoryCounts \<Rightarrow> SpanIOData \<Rightarrow> CategoryCounts" where
  "categoryCountsStep acc d =
     (case category d of
        Agent \<Rightarrow> acc\<lparr>agent := agent acc + 1\<rparr>
      | Llm \<Rightarrow> acc\<lparr>llm := llm acc + 1\<rparr>
      | Tool \<Rightarrow> acc\<lparr>tool := tool acc + 1\<rparr>
      | Other \<Rightarrow> acc\<lparr>other := other acc + 1\<rparr>)"

definition categoryCounts :: "Span list \<Rightarrow> CategoryCounts" where
  "categoryCounts spans =
     foldl categoryCountsStep \<lparr>agent = 0, llm = 0, tool = 0, other = 0\<rparr> (map extractSpanIO spans)"

section \<open>The filtered and sorted extraction results\<close>

text \<open>\<open>.filter(data => data.input || data.output)\<close>\<close>

definition hasInputOrOutput :: "SpanIOData \<Rightarrow> bool" where
  "hasInputOrOutput d = truthy (js_or (ioInput d) (ioOutput d))"

text \<open>
  The comparator \<open>new Date(a.span.startTime).getTime() - new Date(b.span.startTime).getTime()\<close>.
  Date parsing belongs to the JavaScript runtime and is a parameter: \<open>getTime s\<close> is the time
  value of \<open>new Date(s)\<close>, \<open>None\<close> when the date is invalid (\<open>getTime()\<close> is \<open>NaN\<close> then, and
  so is every difference with it).
\<close>

definition compareStartTime ::
  "(string \<Rightarrow> int option) \<Rightarrow> SpanIOData \<Rightarrow> SpanIOData \<Rightarrow> int option" where
  "compareStartTime getTime a b =
     (case getTime (startTime (span a)) of
        None \<Rightarrow> None
      | Some x \<Rightarrow> (case getTime (startTime (span b)) of
                     None \<Rightarrow> None
                   | Some y \<Rightarrow> Some (x - y)))"

text \<open>
  Array.prototype.sort with a comparator: a comparator result \<open>NaN\<close> counts as \<open>+0\<close>, and the
  sort is stable. With a consistent comparator this fixes the result; otherwise the order is
  left to the implementation, and the model is the stable insertion sort.
\<close>

definition sortCompare :: "('a \<Rightarrow> 'a \<Rightarrow> int option) \<Rightarrow> 'a \<Rightarrow> 'a \<Rightarrow> int" where
  "sortCompare cmp a b = (case cmp a b of None \<Rightarrow> 0 | Some v \<Rightarrow> v)"

fun insertSorted :: "('a \<Rightarrow> 'a \<Rightarrow> int option) \<Rightarrow> 'a \<Rightarrow> 'a list \<Rightarrow> 'a list" where
  "insertSorted cmp x [] = [x]"
| "insertSorted cmp x (y # ys) =
     (if sortCompare cmp x y > 0 then y # insertSorted cmp x ys else x # y # ys)"

definition arraySort :: "('a \<Rightarrow> 'a \<Rightarrow> int option) \<Rightarrow> 'a list \<Rightarrow> 'a list" where
  "arraySort cmp xs = foldr (insertSorted cmp) xs []"

text \<open>Modelled from the spec: the error \<open>MalformedInputError\<close>, which identifies the
  offending span by its \<open>spanId\<close>. The sources declare no such error and construct none.\<close>

datatype error = MalformedInputError string

text \<open>
  \<open>spans.map(extractSpanIO).filter(...).sort(...)\<close>. No step of it throws, so the outcome is
  always a list; it is written as a sum to state that.
\<close>

definition sortedSpanIOData ::
  "(string \<Rightarrow> int option) \<Rightarrow> Span list \<Rightarrow> error + SpanIOData list" where
  "sortedSpanIOData getTime spans =
     Inr (arraySort (compareStartTime getTime) (filter hasInputOrOutput (map extractSpanIO spans)))"

section \<open>The specification's wording\<close>

text \<open>An attribute "is present": the attributes have the key.\<close>

definition present :: "jsobject \<Rightarrow> string \<Rightarrow> bool" where
  "present attrs k = (map_of attrs k \<noteq> None)"

text \<open>The classifier policy as the specification words it, with "is present".\<close>

definition classifierPolicy :: "string \<Rightarrow> jsobject \<Rightarrow> Category" where
  "classifierPolicy nm attrs =
     (if includes_str nm ''agent'' \<or> present attrs ''gen_ai.agent.name'' then Agent
      else if includes_str nm ''llm'' \<or> includes_str nm ''bedrock'' \<or> includes_str nm ''converse''
              \<or> present attrs ''gen_ai.system'' then Llm
      else if includes_str nm ''tool'' \<or> present attrs ''gen_ai.tool.name'' then Tool
      else Other)"

text \<open>"The value of the first present, non-null key" of an ordered key list; \<open>null\<close> when
  there is none.\<close>

fun firstPresentNonNull :: "jsobject \<Rightarrow> string list \<Rightarrow> jsval" where
  "firstPresentNonNull attrs [] = JNull"
| "firstPresentNonNull attrs (k # ks) =
     (if present attrs k \<and> getAttr attrs k \<noteq> JNull then getAttr attrs k
      else firstPresentNonNull attrs ks)"

text \<open>The value of the first key of an ordered key list whose value is truthy; \<open>null\<close> when
  there is none.\<close>

fun firstTruthy :: "jsobject \<Rightarrow> string list \<Rightarrow> jsval" where
  "firstTruthy attrs [] = JNull"
| "firstTruthy attrs (k # ks) =
     (if truthy (getAttr attrs k) then getAttr attrs k else firstTruthy attrs ks)"

text \<open>The ordered candidate keys of the specification.\<close>

definition llmInputKeys :: "string list" where
  "llmInputKeys = [''gen_ai.prompt'', ''gen_ai.prompt.0.content'', ''llm.prompts'',
                   ''llm.input_messages'', ''input.value'']"

definition llmOutputKeys :: "string list" where
  "llmOutputKeys = [''gen_ai.completion'', ''gen_ai.completion.0.content'', ''llm.completions'',
                    ''llm.output_messages'', ''output.value'']"

definition toolInputKeys :: "string list" where
  "toolInputKeys = [''gen_ai.tool.input'', ''tool.input'', ''input.value'', ''tool.parameters'']"

definition toolOutputKeys :: "string list" where
  "toolOutputKeys = [''gen_ai.tool.output'', ''tool.output'', ''output.value'', ''tool.result'']"

definition agentInputKeys :: "string list" where
  "agentInputKeys = [''gen_ai.agent.input'', ''agent.input'', ''input.value'', ''user.message'']"

definition agentOutputKeys :: "string list" where
  "agentOutputKeys = [''gen_ai.agent.output'', ''agent.output'', ''output.value'',
                      ''assistant.message'']"

definition genericInputKeys :: "string list" where
  "genericInputKeys = [''input'', ''request'', ''message'']"

definition genericOutputKeys :: "string list" where
  "genericOutputKeys = [''output'', ''response'', ''result'']"

fun categoryInputKeys :: "Category \<Rightarrow> string list" where
  "categoryInputKeys Llm = llmInputKeys"
| "categoryInputKeys Tool = toolInputKeys"
| "categoryInputKeys Agent = agentInputKeys"
| "categoryInputKeys Other = []"

fun categoryOutputKeys :: "Category \<Rightarrow> string list" where
  "categoryOutputKeys Llm = llmOutputKeys"
| "categoryOutputKeys Tool = toolOutputKeys"
| "categoryOutputKeys Agent = agentOutputKeys"
| "categoryOutputKeys Other = []"

text \<open>A structured value: an object or an array.\<close>

fun structured :: "jsval \<Rightarrow> bool" where
  "structured (JArr xs) = True"
| "structured (JObj ps) = True"
| "structured v = False"

section \<open>Example spans\<close>

text \<open>The test helper \<open>createSpan\<close>, called with a name and attributes.\<close>

definition createSpan :: "string \<Rightarrow> jsobject \<Rightarrow> Span" where
  "createSpan nm attrs =
     \<lparr> spanId = ''test-span-id'', traceId = ''test-trace-id'', parentSpanId = None,
       name = nm, startTime = ''2024-01-01T00:00:00Z'', endTime = ''2024-01-01T00:00:01Z'',
       status = OK, attributes = Some attrs \<rparr>"

definition agentToolSpan :: Span where
  "agentToolSpan = createSpan ''agent-tool'' []"

definition emptyAgentNameSpan :: Span where
  "emptyAgentNameSpan = createSpan ''some-span'' [(''gen_ai.agent.name'', JStr [])]"

definition p1p2Span :: Span where
  "p1p2Span =
     createSpan ''llm.call'' [(''gen_ai.prompt'', JStr ''P1''), (''input.value'', JStr ''P2'')]"

definition emptyPromptSpan :: Span where
  "emptyPromptSpan =
     createSpan ''llm.call'' [(''gen_ai.prompt'', JStr []), (''input.value'', JStr ''P2'')]"

definition objectPromptSpan :: Span where
  "objectPromptSpan =
     createSpan ''llm.call''
       [(''gen_ai.prompt'', JObj [(''role'', JStr ''user''), (''content'', JStr ''Hello'')])]"

definition requestResultSpan :: Span where
  "requestResultSpan =
     createSpan ''llm.call''
       [(''request'', JStr ''request data''), (''result'', JStr ''result data'')]"

definition randomSpan :: Span where
  "randomSpan = createSpan ''random-span'' []"

definition outputOnlySpan :: Span where
  "outputOnlySpan = createSpan ''llm.call'' [(''gen_ai.completion'', JStr ''output only'')]"

definition numericPromptSpan :: Span where
  "numericPromptSpan =
     createSpan ''llm.call'' [(''gen_ai.prompt'', JNum 42), (''gen_ai.completion'', JBool True)]"

definition badTimeSpan :: Span where
  "badTimeSpan =
     (createSpan ''llm.call'' [(''gen_ai.prompt'', JStr ''a'')])
       \<lparr> spanId := ''bad'', startTime := ''not-a-date'' \<rparr>"

definition goodTimeSpan :: Span where
  "goodTimeSpan =
     (createSpan ''llm.call'' [(''gen_ai.prompt'', JStr ''b'')])
       \<lparr> spanId := ''1'', startTime := ''2024-01-01T00:00:01Z'' \<rparr>"

text \<open>The time values of the timestamps used in the examples; every other string used
  there is not a date.\<close>

definition exampleGetTime :: "string \<Rightarrow> int option" where
  "exampleGetTime s =
     (if s = ''2024-01-01T00:00:00Z'' then Some 1704067200000
      else if s = ''2024-01-01T00:00:01Z'' then Some 1704067201000
      else if s = ''2024-01-01T00:00:02Z'' then Some 1704067202000
      else if s = ''2024-01-01T00:00:03Z'' then Some 1704067203000
      else None)"

section \<open>Properties\<close>

lemma truthy_js_or: "truthy (js_or a b) = (truthy a \<or> truthy b)"
  by (simp add: js_or_def)

subsection \<open>Helper facts\<close>

lemmas extract_eval =
  extractSpanIO_def attrsOf_def determineCategory_def toLowerCase_def lowerChar_def js_or_def
  getAttr_def resolveInput_def resolveOutput_def llmInput_def llmOutput_def toolInput_def
  toolOutput_def agentInput_def agentOutput_def genericInput_def genericOutput_def
  convertObject_def createSpan_def Let_def

lemmas json_eval =
  JSON_stringify_def quoteJSONString_def escapeChar_def dquote_def backslash_def newline_def

text \<open>\<open>includes\<close> is the contiguous-substring relation.\<close>

lemma startsWith_prefix: "startsWith s p = prefix p s"
  by (induction s p rule: startsWith.induct) auto

lemma includes_str_sublist: "includes_str s sub = sublist sub s"
proof (induction s)
  case Nil
  then show ?case by simp
next
  case (Cons d ds)
  then show ?case
    by (simp add: startsWith_prefix sublist_Cons_right)
qed

text \<open>Each \<open>||\<close> chain ending in \<open>null\<close> picks the first truthy value of its keys.\<close>

lemma llmInput_firstTruthy: "llmInput attrs = firstTruthy attrs llmInputKeys"
  by (simp add: llmInput_def llmInputKeys_def js_or_def)

lemma llmOutput_firstTruthy: "llmOutput attrs = firstTruthy attrs llmOutputKeys"
  by (simp add: llmOutput_def llmOutputKeys_def js_or_def)

lemma toolInput_firstTruthy: "toolInput attrs = firstTruthy attrs toolInputKeys"
  by (simp add: toolInput_def toolInputKeys_def js_or_def)

lemma toolOutput_firstTruthy: "toolOutput attrs = firstTruthy attrs toolOutputKeys"
  by (simp add: toolOutput_def toolOutputKeys_def js_or_def)

lemma agentInput_firstTruthy: "agentInput attrs = firstTruthy attrs agentInputKeys"
  by (simp add: agentInput_def agentInputKeys_def js_or_def)

lemma agentOutput_firstTruthy: "agentOutput attrs = firstTruthy attrs agentOutputKeys"
  by (simp add: agentOutput_def agentOutputKeys_def js_or_def)

lemma genericInput_firstTruthy: "genericInput attrs = firstTruthy attrs genericInputKeys"
  by (simp add: genericInput_def genericInputKeys_def js_or_def)

lemma genericOutput_firstTruthy: "genericOutput attrs = firstTruthy attrs genericOutputKeys"
  by (simp add: genericOutput_def genericOutputKeys_def js_or_def)

lemma firstTruthy_cases: "firstTruthy attrs ks = JNull \<or> truthy (firstTruthy attrs ks)"
  by (induction ks) auto

lemma firstTruthy_append:
  "firstTruthy attrs (ks @ ks') =
     (if truthy (firstTruthy attrs ks) then firstTruthy attrs ks else firstTruthy attrs ks')"
  by (induction ks) auto

text \<open>The three category blocks followed by the generic fallback are one chain: the
  category's keys, then the generic keys.\<close>

lemma resolveInput_firstTruthy:
  "resolveInput cat attrs = firstTruthy attrs (categoryInputKeys cat @ genericInputKeys)"
  by (cases cat)
     (simp_all add: resolveInput_def firstTruthy_append llmInput_firstTruthy
        toolInput_firstTruthy agentInput_firstTruthy genericInput_firstTruthy)

lemma resolveOutput_firstTruthy:
  "resolveOutput cat attrs = firstTruthy attrs (categoryOutputKeys cat @ genericOutputKeys)"
  by (cases cat)
     (simp_all add: resolveOutput_def firstTruthy_append llmOutput_firstTruthy
        toolOutput_firstTruthy agentOutput_firstTruthy genericOutput_firstTruthy)

lemma category_extractSpanIO:
  "category (extractSpanIO sp) = determineCategory (toLowerCase (name sp)) (attrsOf sp)"
  by (simp add: extractSpanIO_def Let_def)

lemma ioInput_extractSpanIO:
  "ioInput (extractSpanIO sp) =
     convertObject (firstTruthy (attrsOf sp)
       (categoryInputKeys (category (extractSpanIO sp)) @ genericInputKeys))"
  by (simp add: extractSpanIO_def Let_def resolveInput_firstTruthy)

lemma ioOutput_extractSpanIO:
  "ioOutput (extractSpanIO sp) =
     convertObject (firstTruthy (attrsOf sp)
       (categoryOutputKeys (category (extractSpanIO sp)) @ genericOutputKeys))"
  by (simp add: extractSpanIO_def Let_def resolveOutput_firstTruthy)

lemma determineCategory_rules:
  "determineCategory nm attrs =
     (if includes_str nm ''agent'' \<or> truthy (getAttr attrs ''gen_ai.agent.name'') then Agent
      else if includes_str nm ''llm'' \<or> includes_str nm ''bedrock'' \<or> includes_str nm ''converse''
              \<or> truthy (getAttr attrs ''gen_ai.system'') then Llm
      else if includes_str nm ''tool'' \<or> truthy (getAttr attrs ''gen_ai.tool.name'') then Tool
      else Other)"
  by (simp add: determineCategory_def truthy_js_or)

subsection \<open>The classifier\<close>

text \<open>
  C1 (as amended). For every span the classifier evaluates its rules in strict order and the
  first match wins: the category is \<open>agent\<close> if the lower-cased name contains "agent" or the
  attribute \<open>gen_ai.agent.name\<close> has a truthy value; otherwise \<open>llm\<close> if the name contains
  "llm", "bedrock" or "converse" or \<open>gen_ai.system\<close> has a truthy value; otherwise \<open>tool\<close>
  if the name contains "tool" or \<open>gen_ai.tool.name\<close> has a truthy value; otherwise \<open>other\<close>.
  An attribute counts only when its value is truthy, not whenever it is present.
\<close>

theorem classifier_first_match_wins:
  "category (extractSpanIO sp) =
     (let nm = toLowerCase (name sp); attrs = attrsOf sp
      in if includes_str nm ''agent'' \<or> truthy (getAttr attrs ''gen_ai.agent.name'') then Agent
         else if includes_str nm ''llm'' \<or> includes_str nm ''bedrock''
                 \<or> includes_str nm ''converse'' \<or> truthy (getAttr attrs ''gen_ai.system'')
           then Llm
         else if includes_str nm ''tool'' \<or> truthy (getAttr attrs ''gen_ai.tool.name'') then Tool
         else Other)"
  by (simp add: category_extractSpanIO determineCategory_rules Let_def)

text \<open>In particular a span named "agent-tool" with no attributes classifies as \<open>agent\<close>.\<close>

theorem classifier_first_match_wins_witness:
  "category (extractSpanIO agentToolSpan) = Agent"
  using classifier_first_match_wins [of agentToolSpan]
  by (simp add: agentToolSpan_def createSpan_def attrsOf_def toLowerCase_def lowerChar_def
        getAttr_def Let_def)

text \<open>
  C1 as stated fails: a span named "some-span" whose attribute \<open>gen_ai.agent.name\<close> is
  present with the value \<open>""\<close> classifies as \<open>other\<close>, where the policy worded with
  "is present" gives \<open>agent\<close>.
\<close>

theorem classifier_present_counterexample:
  "category (extractSpanIO emptyAgentNameSpan) = Other
   \<and> classifierPolicy (toLowerCase (name emptyAgentNameSpan)) (attrsOf emptyAgentNameSpan) = Agent"
  by (simp add: emptyAgentNameSpan_def extract_eval classifierPolicy_def present_def)

subsection \<open>The extractor's key order\<close>

text \<open>
  C2 (as amended). For every span classified \<open>llm\<close>, the input is the value of the first key,
  in the order \<open>gen_ai.prompt\<close>, \<open>gen_ai.prompt.0.content\<close>, \<open>llm.prompts\<close>,
  \<open>llm.input_messages\<close>, \<open>input.value\<close>, whose value is truthy (converted to JSON text
  when it is an object or array), and the output likewise over \<open>gen_ai.completion\<close>,
  \<open>gen_ai.completion.0.content\<close>, \<open>llm.completions\<close>, \<open>llm.output_messages\<close>,
  \<open>output.value\<close>. A key that is present and not null but falsy is passed over.
\<close>

theorem llm_first_truthy_key:
  assumes "category (extractSpanIO sp) = Llm"
  shows "(truthy (firstTruthy (attrsOf sp) llmInputKeys) \<longrightarrow>
            ioInput (extractSpanIO sp) = convertObject (firstTruthy (attrsOf sp) llmInputKeys))
       \<and> (truthy (firstTruthy (attrsOf sp) llmOutputKeys) \<longrightarrow>
            ioOutput (extractSpanIO sp) = convertObject (firstTruthy (attrsOf sp) llmOutputKeys))"
proof -
  have "ioInput (extractSpanIO sp) =
          convertObject (firstTruthy (attrsOf sp) (llmInputKeys @ genericInputKeys))"
    using assms ioInput_extractSpanIO [of sp] by simp
  moreover have "ioOutput (extractSpanIO sp) =
          convertObject (firstTruthy (attrsOf sp) (llmOutputKeys @ genericOutputKeys))"
    using assms ioOutput_extractSpanIO [of sp] by simp
  ultimately show ?thesis
    by (simp add: firstTruthy_append)
qed

text \<open>In particular \<open>gen_ai.prompt\<close> = "P1" together with \<open>input.value\<close> = "P2" yields
  the input "P1".\<close>

theorem llm_first_truthy_key_witness:
  "category (extractSpanIO p1p2Span) = Llm \<and> ioInput (extractSpanIO p1p2Span) = JStr ''P1''"
proof -
  have c: "category (extractSpanIO p1p2Span) = Llm"
    by (simp add: p1p2Span_def extract_eval)
  have "firstTruthy (attrsOf p1p2Span) llmInputKeys = JStr ''P1''"
    by (simp add: p1p2Span_def createSpan_def attrsOf_def llmInputKeys_def getAttr_def)
  with llm_first_truthy_key [OF c] c show ?thesis
    by (simp add: convertObject_def)
qed

text \<open>
  C2 as stated fails: with \<open>gen_ai.prompt\<close> = \<open>""\<close> (present and not null) and
  \<open>input.value\<close> = "P2", the span is classified \<open>llm\<close> and the input is "P2", where the
  first present, non-null key holds \<open>""\<close>.
\<close>

theorem llm_present_non_null_counterexample:
  "category (extractSpanIO emptyPromptSpan) = Llm
   \<and> ioInput (extractSpanIO emptyPromptSpan) = JStr ''P2''
   \<and> firstPresentNonNull (attrsOf emptyPromptSpan) llmInputKeys = JStr []"
  by (simp add: emptyPromptSpan_def extract_eval llmInputKeys_def present_def)

subsection \<open>The two classifiers\<close>

text \<open>
  C3. The category the extractor assigns and the category the flyout's statistics count are
  not the same for every span: the flyout tests "llm", then "tool", then "agent", and reads
  no attribute but \<open>gen_ai.tool.name\<close>. The span named "agent-tool" with no attributes is
  counted as \<open>agent\<close> over the extraction results and as \<open>tool\<close> by the flyout.
\<close>

theorem flyout_counts_agent_tool_as_tool:
  "categoryCounts [agentToolSpan] = \<lparr>agent = 1, llm = 0, tool = 0, other = 0\<rparr>
   \<and> byCategory [agentToolSpan] = \<lparr>agent = 0, llm = 0, tool = 1, other = 0\<rparr>"
  by (simp add: agentToolSpan_def categoryCounts_def categoryCountsStep_def byCategory_def
        byCategoryStep_def extract_eval)

subsection \<open>Conversion of objects to JSON text\<close>

lemma convertObject_structured:
  "structured v \<Longrightarrow> convertObject v = JSON_stringify v"
  by (cases v) (simp_all add: convertObject_def)

lemma convertObject_not_structured:
  "\<not> structured v \<Longrightarrow> convertObject v = v"
  by (cases v) (simp_all add: convertObject_def)

lemma convertObject_JNull: "convertObject JNull = JNull"
  by (simp add: convertObject_def)

lemma JSON_stringify_structured:
  "structured v \<Longrightarrow> \<exists>t. JSON_stringify v = JStr t"
  by (cases v) (simp_all add: JSON_stringify_def Let_def)

text \<open>
  C4. For every span, if the resolved input (or output) value is a structured object or
  array rather than a plain string, the extractor returns its JSON serialization with
  2-space indentation, which is a string; a resolved string passes through unchanged.
  Here \<open>v\<close> and \<open>w\<close> are the values of \<open>input\<close> and \<open>output\<close> after the category blocks and
  the generic fallback.
\<close>

theorem structured_value_as_json_text:
  assumes "v = resolveInput (category (extractSpanIO sp)) (attrsOf sp)"
      and "w = resolveOutput (category (extractSpanIO sp)) (attrsOf sp)"
  shows "(structured v \<longrightarrow>
            ioInput (extractSpanIO sp) = JSON_stringify v \<and> (\<exists>t. JSON_stringify v = JStr t))
       \<and> (v = JStr s \<longrightarrow> ioInput (extractSpanIO sp) = JStr s)
       \<and> (structured w \<longrightarrow>
            ioOutput (extractSpanIO sp) = JSON_stringify w \<and> (\<exists>t. JSON_stringify w = JStr t))
       \<and> (w = JStr s' \<longrightarrow> ioOutput (extractSpanIO sp) = JStr s')"
proof -
  have i: "ioInput (extractSpanIO sp) = convertObject v"
    using assms(1) by (simp add: extractSpanIO_def Let_def)
  have o: "ioOutput (extractSpanIO sp) = convertObject w"
    using assms(2) by (simp add: extractSpanIO_def Let_def)
  show ?thesis
    unfolding i o
    by (auto simp: convertObject_structured convertObject_not_structured
          JSON_stringify_structured)
qed

text \<open>The prompt \<open>{ role: 'user', content: 'Hello' }\<close> of the tests comes out as the
  two-space indented text, one property per line; the string "P1" comes out as it is.\<close>

theorem structured_value_as_json_text_witness:
  "ioInput (extractSpanIO objectPromptSpan) =
     JStr (''{'' @ [newline]
           @ ''  '' @ [dquote] @ ''role'' @ [dquote] @ '': '' @ [dquote] @ ''user'' @ [dquote]
           @ '','' @ [newline]
           @ ''  '' @ [dquote] @ ''content'' @ [dquote] @ '': '' @ [dquote] @ ''Hello'' @ [dquote]
           @ [newline] @ ''}'')
   \<and> ioOutput (extractSpanIO p1p2Span) = JNull
   \<and> ioInput (extractSpanIO p1p2Span) = JStr ''P1''"
proof -
  have v: "JObj [(''role'', JStr ''user''), (''content'', JStr ''Hello'')] =
             resolveInput (category (extractSpanIO objectPromptSpan)) (attrsOf objectPromptSpan)"
    by (simp add: objectPromptSpan_def extract_eval)
  have w: "JNull =
             resolveOutput (category (extractSpanIO objectPromptSpan)) (attrsOf objectPromptSpan)"
    by (simp add: objectPromptSpan_def extract_eval)
  have v2: "JStr ''P1'' = resolveInput (category (extractSpanIO p1p2Span)) (attrsOf p1p2Span)"
    by (simp add: p1p2Span_def extract_eval)
  have w2: "JNull = resolveOutput (category (extractSpanIO p1p2Span)) (attrsOf p1p2Span)"
    by (simp add: p1p2Span_def extract_eval)
  have "ioInput (extractSpanIO objectPromptSpan) =
          JSON_stringify (JObj [(''role'', JStr ''user''), (''content'', JStr ''Hello'')])"
    using structured_value_as_json_text [OF v w] by simp
  moreover have "ioInput (extractSpanIO p1p2Span) = JStr ''P1''"
    using structured_value_as_json_text [OF v2 w2, of "''P1''"] by simp
  moreover have "ioOutput (extractSpanIO p1p2Span) = JNull"
    by (simp add: p1p2Span_def extract_eval)
  ultimately show ?thesis
    by (simp add: json_eval)
qed

subsection \<open>The generic fallback\<close>

lemma firstTruthy_all_falsy:
  "list_all (\<lambda>k. \<not> truthy (getAttr attrs k)) ks \<Longrightarrow> firstTruthy attrs ks = JNull"
  by (induction ks) auto

text \<open>
  C5. For every span of every category (including \<open>other\<close>, which has no keys of its own),
  if no category-specific key yields an input value, the input is taken from the generic keys
  \<open>input\<close>, \<open>request\<close>, \<open>message\<close> in that order; and independently of it the output from
  \<open>output\<close>, \<open>response\<close>, \<open>result\<close>.
\<close>

theorem generic_fallback_in_order:
  "(list_all (\<lambda>k. \<not> truthy (getAttr (attrsOf sp) k))
       (categoryInputKeys (category (extractSpanIO sp))) \<longrightarrow>
      ioInput (extractSpanIO sp) =
        convertObject
          (if truthy (getAttr (attrsOf sp) ''input'') then getAttr (attrsOf sp) ''input''
           else if truthy (getAttr (attrsOf sp) ''request'') then getAttr (attrsOf sp) ''request''
           else if truthy (getAttr (attrsOf sp) ''message'') then getAttr (attrsOf sp) ''message''
           else JNull))
   \<and> (list_all (\<lambda>k. \<not> truthy (getAttr (attrsOf sp) k))
         (categoryOutputKeys (category (extractSpanIO sp))) \<longrightarrow>
        ioOutput (extractSpanIO sp) =
          convertObject
            (if truthy (getAttr (attrsOf sp) ''output'') then getAttr (attrsOf sp) ''output''
             else if truthy (getAttr (attrsOf sp) ''response'')
               then getAttr (attrsOf sp) ''response''
             else if truthy (getAttr (attrsOf sp) ''result'') then getAttr (attrsOf sp) ''result''
             else JNull))"
proof -
  have gi: "firstTruthy (attrsOf sp) genericInputKeys =
          (if truthy (getAttr (attrsOf sp) ''input'') then getAttr (attrsOf sp) ''input''
           else if truthy (getAttr (attrsOf sp) ''request'') then getAttr (attrsOf sp) ''request''
           else if truthy (getAttr (attrsOf sp) ''message'') then getAttr (attrsOf sp) ''message''
           else JNull)"
    by (simp add: genericInputKeys_def)
  have go: "firstTruthy (attrsOf sp) genericOutputKeys =
          (if truthy (getAttr (attrsOf sp) ''output'') then getAttr (attrsOf sp) ''output''
           else if truthy (getAttr (attrsOf sp) ''response'')
             then getAttr (attrsOf sp) ''response''
           else if truthy (getAttr (attrsOf sp) ''result'') then getAttr (attrsOf sp) ''result''
           else JNull)"
    by (simp add: genericOutputKeys_def)
  show ?thesis
    unfolding gi [symmetric] go [symmetric]
    by (simp add: ioInput_extractSpanIO [of sp] ioOutput_extractSpanIO [of sp]
          firstTruthy_append firstTruthy_all_falsy)
qed

text \<open>An \<open>llm\<close> span that has only \<open>request\<close> and \<open>result\<close> takes both from the generic keys.\<close>

theorem generic_fallback_in_order_witness:
  "category (extractSpanIO requestResultSpan) = Llm
   \<and> ioInput (extractSpanIO requestResultSpan) = JStr ''request data''
   \<and> ioOutput (extractSpanIO requestResultSpan) = JStr ''result data''"
proof -
  have c: "category (extractSpanIO requestResultSpan) = Llm"
    by (simp add: requestResultSpan_def extract_eval)
  have a: "attrsOf requestResultSpan =
             [(''request'', JStr ''request data''), (''result'', JStr ''result data'')]"
    by (simp add: requestResultSpan_def createSpan_def attrsOf_def)
  show ?thesis
    using generic_fallback_in_order [of requestResultSpan] c
    by (simp add: a llmInputKeys_def llmOutputKeys_def getAttr_def convertObject_def)
qed

subsection \<open>Spans without the documented keys\<close>

lemma getAttr_absent: "\<not> present attrs k \<Longrightarrow> getAttr attrs k = JUndefined"
  by (simp add: present_def getAttr_def)

lemma firstTruthy_all_absent:
  "list_all (\<lambda>k. \<not> present attrs k) ks \<Longrightarrow> firstTruthy attrs ks = JNull"
  by (induction ks) (auto simp: getAttr_absent)

text \<open>
  C6. \<open>extractSpanIO\<close> has no \<open>throw\<close> and is defined on every span, so it returns a result
  for every span. When the attributes hold none of the documented input keys the input is
  \<open>null\<close>, whatever the output keys are, and likewise for the output; when they hold none
  of the three classifying attributes and the name matches no rule, the category is \<open>other\<close>.
\<close>

theorem undocumented_attributes_give_null:
  "(list_all (\<lambda>k. \<not> present (attrsOf sp) k)
       (llmInputKeys @ toolInputKeys @ agentInputKeys @ genericInputKeys) \<longrightarrow>
      ioInput (extractSpanIO sp) = JNull)
   \<and> (list_all (\<lambda>k. \<not> present (attrsOf sp) k)
         (llmOutputKeys @ toolOutputKeys @ agentOutputKeys @ genericOutputKeys) \<longrightarrow>
        ioOutput (extractSpanIO sp) = JNull)
   \<and> (list_all (\<lambda>k. \<not> present (attrsOf sp) k)
         [''gen_ai.agent.name'', ''gen_ai.system'', ''gen_ai.tool.name'']
       \<and> list_all (\<lambda>w. \<not> includes_str (toLowerCase (name sp)) w)
            [''agent'', ''llm'', ''bedrock'', ''converse'', ''tool''] \<longrightarrow>
        category (extractSpanIO sp) = Other)"
proof -
  have i: "list_all (\<lambda>k. \<not> present (attrsOf sp) k)
             (llmInputKeys @ toolInputKeys @ agentInputKeys @ genericInputKeys) \<Longrightarrow>
           ioInput (extractSpanIO sp) = JNull"
    by (cases "category (extractSpanIO sp)")
       (simp_all add: ioInput_extractSpanIO [of sp] firstTruthy_all_absent convertObject_JNull)
  have o: "list_all (\<lambda>k. \<not> present (attrsOf sp) k)
             (llmOutputKeys @ toolOutputKeys @ agentOutputKeys @ genericOutputKeys) \<Longrightarrow>
           ioOutput (extractSpanIO sp) = JNull"
    by (cases "category (extractSpanIO sp)")
       (simp_all add: ioOutput_extractSpanIO [of sp] firstTruthy_all_absent convertObject_JNull)
  have c: "list_all (\<lambda>k. \<not> present (attrsOf sp) k)
             [''gen_ai.agent.name'', ''gen_ai.system'', ''gen_ai.tool.name''] \<Longrightarrow>
           list_all (\<lambda>w. \<not> includes_str (toLowerCase (name sp)) w)
             [''agent'', ''llm'', ''bedrock'', ''converse'', ''tool''] \<Longrightarrow>
           category (extractSpanIO sp) = Other"
    by (simp add: category_extractSpanIO determineCategory_rules getAttr_absent)
  from i o c show ?thesis by blast
qed

text \<open>The span named "random-span" with attributes \<open>{}\<close> yields \<open>other\<close>, \<open>null\<close>, \<open>null\<close>;
  a span with \<open>gen_ai.completion\<close> alone has an output and no input.\<close>

theorem undocumented_attributes_give_null_witness:
  "category (extractSpanIO randomSpan) = Other
   \<and> ioInput (extractSpanIO randomSpan) = JNull
   \<and> ioOutput (extractSpanIO randomSpan) = JNull
   \<and> ioInput (extractSpanIO outputOnlySpan) = JNull
   \<and> ioOutput (extractSpanIO outputOnlySpan) = JStr ''output only''"
proof -
  have r: "attrsOf randomSpan = [] \<and> toLowerCase (name randomSpan) = ''random-span''"
    by (simp add: randomSpan_def createSpan_def attrsOf_def toLowerCase_def lowerChar_def)
  have a: "attrsOf outputOnlySpan = [(''gen_ai.completion'', JStr ''output only'')]"
    by (simp add: outputOnlySpan_def createSpan_def attrsOf_def)
  have "category (extractSpanIO randomSpan) = Other
        \<and> ioInput (extractSpanIO randomSpan) = JNull
        \<and> ioOutput (extractSpanIO randomSpan) = JNull"
    using undocumented_attributes_give_null [of randomSpan]
    by (simp add: r present_def llmInputKeys_def toolInputKeys_def agentInputKeys_def
          genericInputKeys_def llmOutputKeys_def toolOutputKeys_def agentOutputKeys_def
          genericOutputKeys_def)
  moreover have "ioInput (extractSpanIO outputOnlySpan) = JNull"
    using undocumented_attributes_give_null [of outputOnlySpan]
    by (simp add: a present_def llmInputKeys_def toolInputKeys_def agentInputKeys_def
          genericInputKeys_def)
  moreover have "ioOutput (extractSpanIO outputOnlySpan) = JStr ''output only''"
    by (simp add: outputOnlySpan_def extract_eval)
  ultimately show ?thesis by simp
qed

subsection \<open>Timestamps that do not parse\<close>

lemma mset_insertSorted: "mset (insertSorted cmp x xs) = add_mset x (mset xs)"
  by (induction xs) auto

lemma mset_arraySort: "mset (arraySort cmp xs) = mset xs"
  by (induction xs) (auto simp: arraySort_def mset_insertSorted)

lemma set_insertSorted: "set (insertSorted cmp x xs) = insert x (set xs)"
  by (induction xs) auto

lemma sortCompare_valid:
  "getTime (startTime (span a)) = Some x \<Longrightarrow> getTime (startTime (span b)) = Some y \<Longrightarrow>
     sortCompare (compareStartTime getTime) a b = x - y"
  by (simp add: sortCompare_def compareStartTime_def)

lemma sorted_insertSorted:
  assumes "\<forall>y \<in> set (x # xs). getTime (startTime (span y)) \<noteq> None"
      and "sorted (map (\<lambda>y. the (getTime (startTime (span y)))) xs)"
  shows "sorted (map (\<lambda>y. the (getTime (startTime (span y))))
           (insertSorted (compareStartTime getTime) x xs))"
  using assms
proof (induction xs)
  case Nil
  then show ?case by simp
next
  case (Cons y ys)
  obtain tx ty
    where t: "getTime (startTime (span x)) = Some tx" "getTime (startTime (span y)) = Some ty"
    using Cons.prems(1) by auto
  show ?case
  proof (cases "sortCompare (compareStartTime getTime) x y > 0")
    case True
    then have "ty < tx" using sortCompare_valid [OF t] by simp
    with Cons t True show ?thesis
      by (auto simp: set_insertSorted)
  next
    case False
    then have "tx \<le> ty" using sortCompare_valid [OF t] by simp
    with Cons t False show ?thesis
      by auto
  qed
qed

text \<open>When every start time parses, the sort orders the results by ascending start time.\<close>

lemma arraySort_sorted:
  "\<forall>y \<in> set xs. getTime (startTime (span y)) \<noteq> None \<Longrightarrow>
     sorted (map (\<lambda>y. the (getTime (startTime (span y))))
       (arraySort (compareStartTime getTime) xs))"
proof (induction xs)
  case Nil
  then show ?case by (simp add: arraySort_def)
next
  case (Cons x xs)
  have s: "set (arraySort (compareStartTime getTime) xs) = set xs"
    by (metis mset_arraySort set_mset_mset)
  from Cons have "sorted (map (\<lambda>y. the (getTime (startTime (span y))))
       (arraySort (compareStartTime getTime) xs))" by simp
  then have "sorted (map (\<lambda>y. the (getTime (startTime (span y))))
       (insertSorted (compareStartTime getTime) x (arraySort (compareStartTime getTime) xs)))"
    using Cons.prems s by (intro sorted_insertSorted) auto
  then show ?case by (simp add: arraySort_def)
qed

text \<open>
  C7 (as amended). A start or end time that does not parse raises no error.
  \<open>extractSpanIO\<close> does not read the timestamps; the comparator of the sort evaluates to
  \<open>NaN\<close> whenever one of the two start times does not parse, which the sort takes as "equal";
  and for every input the filtered and sorted extraction returns a list that holds exactly
  the extraction results with an input or an output.
\<close>

theorem unparseable_start_time_raises_nothing:
  "(\<exists>r. sortedSpanIOData getTime spans = Inr r
        \<and> mset r = mset (filter hasInputOrOutput (map extractSpanIO spans)))
   \<and> (getTime (startTime (span a)) = None \<or> getTime (startTime (span b)) = None \<longrightarrow>
        compareStartTime getTime a b = None \<and> sortCompare (compareStartTime getTime) a b = 0)
   \<and> extractSpanIO (sp\<lparr>startTime := t, endTime := t'\<rparr>) =
        (extractSpanIO sp)\<lparr>span := sp\<lparr>startTime := t, endTime := t'\<rparr>\<rparr>"
proof -
  have "\<exists>r. sortedSpanIOData getTime spans = Inr r
          \<and> mset r = mset (filter hasInputOrOutput (map extractSpanIO spans))"
    by (simp add: sortedSpanIOData_def mset_arraySort)
  moreover have "getTime (startTime (span a)) = None \<or> getTime (startTime (span b)) = None \<Longrightarrow>
        compareStartTime getTime a b = None \<and> sortCompare (compareStartTime getTime) a b = 0"
    by (auto simp: compareStartTime_def sortCompare_def split: option.splits)
  moreover have "extractSpanIO (sp\<lparr>startTime := t, endTime := t'\<rparr>) =
        (extractSpanIO sp)\<lparr>span := sp\<lparr>startTime := t, endTime := t'\<rparr>\<rparr>"
    by (simp add: extractSpanIO_def attrsOf_def Let_def)
  ultimately show ?thesis by blast
qed

theorem unparseable_start_time_raises_nothing_witness:
  "exampleGetTime (startTime (span (extractSpanIO badTimeSpan))) = None
   \<and> compareStartTime exampleGetTime (extractSpanIO badTimeSpan) (extractSpanIO goodTimeSpan)
       = None
   \<and> (\<exists>r. sortedSpanIOData exampleGetTime [badTimeSpan, goodTimeSpan] = Inr r
          \<and> mset r = {# extractSpanIO badTimeSpan, extractSpanIO goodTimeSpan #})"
proof -
  have n: "exampleGetTime (startTime (span (extractSpanIO badTimeSpan))) = None"
    by (simp add: badTimeSpan_def createSpan_def extractSpanIO_def Let_def exampleGetTime_def)
  have h: "hasInputOrOutput (extractSpanIO badTimeSpan)
           \<and> hasInputOrOutput (extractSpanIO goodTimeSpan)"
    by (simp add: badTimeSpan_def goodTimeSpan_def hasInputOrOutput_def extract_eval)
  show ?thesis
    using unparseable_start_time_raises_nothing
            [of exampleGetTime "[badTimeSpan, goodTimeSpan]" "extractSpanIO badTimeSpan"
                "extractSpanIO goodTimeSpan"]
          n h
    by auto
qed

text \<open>
  C7 as stated fails: the span with \<open>spanId\<close> "bad" has the start time "not-a-date"; it is
  extracted like any other span, and the filtered and sorted extraction of it and a well-formed
  span returns both results, not a \<open>MalformedInputError\<close> naming "bad".
\<close>

theorem malformed_timestamp_counterexample:
  "exampleGetTime (startTime badTimeSpan) = None
   \<and> exampleGetTime (startTime goodTimeSpan) = Some 1704067201000
   \<and> sortedSpanIOData exampleGetTime [badTimeSpan, goodTimeSpan] =
        Inr [extractSpanIO badTimeSpan, extractSpanIO goodTimeSpan]
   \<and> sortedSpanIOData exampleGetTime [badTimeSpan, goodTimeSpan] \<noteq>
        Inl (MalformedInputError (spanId badTimeSpan))
   \<and> category (extractSpanIO badTimeSpan) = Llm
   \<and> ioInput (extractSpanIO badTimeSpan) = JStr ''a''"
proof -
  have n: "exampleGetTime (startTime (span (extractSpanIO badTimeSpan))) = None"
    by (simp add: badTimeSpan_def createSpan_def extractSpanIO_def Let_def exampleGetTime_def)
  have h: "hasInputOrOutput (extractSpanIO badTimeSpan)
           \<and> hasInputOrOutput (extractSpanIO goodTimeSpan)"
    by (simp add: badTimeSpan_def goodTimeSpan_def hasInputOrOutput_def extract_eval)
  have s: "sortedSpanIOData exampleGetTime [badTimeSpan, goodTimeSpan] =
        Inr [extractSpanIO badTimeSpan, extractSpanIO goodTimeSpan]"
    using n h
    by (simp add: sortedSpanIOData_def arraySort_def sortCompare_def compareStartTime_def)
  have "exampleGetTime (startTime badTimeSpan) = None
        \<and> exampleGetTime (startTime goodTimeSpan) = Some 1704067201000"
    by (simp add: badTimeSpan_def goodTimeSpan_def createSpan_def exampleGetTime_def)
  moreover have "category (extractSpanIO badTimeSpan) = Llm
        \<and> ioInput (extractSpanIO badTimeSpan) = JStr ''a''"
    by (simp add: badTimeSpan_def extract_eval)
  ultimately show ?thesis using s by simp
qed

subsection \<open>Falsy attribute values\<close>

lemma getAttr_removeAttr:
  "getAttr (removeAttr k attrs) j = (if j = k then JUndefined else getAttr attrs j)"
  by (induction attrs) (auto simp: removeAttr_def getAttr_def)

lemma truthy_getAttr_removeAttr:
  "\<not> truthy (getAttr attrs k) \<Longrightarrow>
     truthy (getAttr (removeAttr k attrs) j) = truthy (getAttr attrs j)"
  by (simp add: getAttr_removeAttr)

lemma firstTruthy_removeAttr:
  "\<not> truthy (getAttr attrs k) \<Longrightarrow> firstTruthy (removeAttr k attrs) ks = firstTruthy attrs ks"
  by (induction ks) (auto simp: getAttr_removeAttr)

lemma determineCategory_removeAttr:
  "\<not> truthy (getAttr attrs k) \<Longrightarrow>
     determineCategory nm (removeAttr k attrs) = determineCategory nm attrs"
  by (simp add: determineCategory_rules truthy_getAttr_removeAttr)

text \<open>
  C9. For every span, an attribute that is present with a falsy value (\<open>""\<close>, \<open>0\<close> or
  \<open>false\<close>) is treated in the classification and in the input and output chains exactly as
  if it were absent: the category, the input and the output are those of the same span
  without that key. (The fields \<open>toolName\<close> and \<open>modelId\<close>, computed after these steps, are
  not part of the statement.)
\<close>

theorem falsy_attribute_as_absent:
  assumes "getAttr attrs k = JStr [] \<or> getAttr attrs k = JNum 0 \<or> getAttr attrs k = JBool False"
  shows "category (extractSpanIO (sp\<lparr>attributes := Some attrs\<rparr>)) =
           category (extractSpanIO (sp\<lparr>attributes := Some (removeAttr k attrs)\<rparr>))
       \<and> ioInput (extractSpanIO (sp\<lparr>attributes := Some attrs\<rparr>)) =
           ioInput (extractSpanIO (sp\<lparr>attributes := Some (removeAttr k attrs)\<rparr>))
       \<and> ioOutput (extractSpanIO (sp\<lparr>attributes := Some attrs\<rparr>)) =
           ioOutput (extractSpanIO (sp\<lparr>attributes := Some (removeAttr k attrs)\<rparr>))"
proof -
  from assms have f: "\<not> truthy (getAttr attrs k)" by auto
  show ?thesis
    by (simp add: extractSpanIO_def attrsOf_def Let_def resolveInput_firstTruthy
          resolveOutput_firstTruthy determineCategory_removeAttr [OF f]
          firstTruthy_removeAttr [OF f])
qed

text \<open>\<open>gen_ai.agent.name\<close> = \<open>""\<close> does not make a span an \<open>agent\<close> span, and
  \<open>gen_ai.prompt\<close> = \<open>""\<close> is skipped in favour of \<open>input.value\<close>.\<close>

theorem falsy_attribute_as_absent_witness:
  "category (extractSpanIO emptyAgentNameSpan) = Other
   \<and> ioInput (extractSpanIO emptyPromptSpan) = JStr ''P2''"
proof -
  have e1: "emptyAgentNameSpan = (createSpan ''some-span'' [])
              \<lparr>attributes := Some [(''gen_ai.agent.name'', JStr [])]\<rparr>"
    by (simp add: emptyAgentNameSpan_def createSpan_def)
  have e2: "emptyPromptSpan = (createSpan ''llm.call'' [])
              \<lparr>attributes := Some [(''gen_ai.prompt'', JStr []), (''input.value'', JStr ''P2'')]\<rparr>"
    by (simp add: emptyPromptSpan_def createSpan_def)
  have "category (extractSpanIO emptyAgentNameSpan) =
          category (extractSpanIO ((createSpan ''some-span'' [])\<lparr>attributes := Some []\<rparr>))"
    unfolding e1
    using falsy_attribute_as_absent
            [of "[(''gen_ai.agent.name'', JStr [])]" "''gen_ai.agent.name''"
                "createSpan ''some-span'' []"]
    by (simp add: getAttr_def removeAttr_def)
  moreover have "ioInput (extractSpanIO emptyPromptSpan) =
          ioInput (extractSpanIO ((createSpan ''llm.call'' [])
             \<lparr>attributes := Some [(''input.value'', JStr ''P2'')]\<rparr>))"
    unfolding e2
    using falsy_attribute_as_absent
            [of "[(''gen_ai.prompt'', JStr []), (''input.value'', JStr ''P2'')]"
                "''gen_ai.prompt''" "createSpan ''llm.call'' []"]
    by (simp add: getAttr_def removeAttr_def)
  ultimately show ?thesis
    by (simp add: extract_eval)
qed

text \<open>The last operand of the \<open>||\<close> chain of \<open>toolName\<close> is returned as it is, so there a
  falsy \<open>tool.name\<close> shows.\<close>

lemma toolName_keeps_last_operand:
  "toolName (extractSpanIO (createSpan ''x'' [(''tool.name'', JStr [])])) = JStr []
   \<and> toolName (extractSpanIO (createSpan ''x'' [])) = JUndefined"
  by (simp add: extract_eval)

subsection \<open>Scalars that are not strings\<close>

text \<open>
  C10. For every span whose resolved input or output value is a truthy non-string scalar
  (a nonzero number or \<open>true\<close>), \<open>extractSpanIO\<close> returns that value unchanged, not a string:
  the result differs from the resolved value only when that value is an object or array.
  Here \<open>v\<close> and \<open>w\<close> are the values of \<open>input\<close> and \<open>output\<close> after the category blocks and
  the generic fallback.
\<close>

theorem truthy_scalar_returned_unchanged:
  assumes "v = resolveInput (category (extractSpanIO sp)) (attrsOf sp)"
      and "w = resolveOutput (category (extractSpanIO sp)) (attrsOf sp)"
  shows "(v = JNum n \<or> v = JBool b \<longrightarrow> ioInput (extractSpanIO sp) = v \<and> truthy v)
       \<and> (w = JNum n' \<or> w = JBool b' \<longrightarrow> ioOutput (extractSpanIO sp) = w \<and> truthy w)
       \<and> (ioInput (extractSpanIO sp) \<noteq> v \<longrightarrow> structured v)
       \<and> (ioOutput (extractSpanIO sp) \<noteq> w \<longrightarrow> structured w)"
proof -
  have i: "ioInput (extractSpanIO sp) = convertObject v"
    using assms(1) by (simp add: extractSpanIO_def Let_def)
  have o: "ioOutput (extractSpanIO sp) = convertObject w"
    using assms(2) by (simp add: extractSpanIO_def Let_def)
  have tv: "v = JNull \<or> truthy v"
    unfolding assms(1) resolveInput_firstTruthy by (rule firstTruthy_cases)
  have tw: "w = JNull \<or> truthy w"
    unfolding assms(2) resolveOutput_firstTruthy by (rule firstTruthy_cases)
  show ?thesis
    unfolding i o
    using tv tw convertObject_not_structured [of v] convertObject_not_structured [of w]
    by auto
qed

text \<open>\<open>gen_ai.prompt\<close> = 42 and \<open>gen_ai.completion\<close> = \<open>true\<close> come out as the number and
  the boolean.\<close>

theorem truthy_scalar_returned_unchanged_witness:
  "ioInput (extractSpanIO numericPromptSpan) = JNum 42
   \<and> ioOutput (extractSpanIO numericPromptSpan) = JBool True
   \<and> typeof (ioInput (extractSpanIO numericPromptSpan)) = ''number''"
proof -
  have v: "JNum 42 =
             resolveInput (category (extractSpanIO numericPromptSpan)) (attrsOf numericPromptSpan)"
    by (simp add: numericPromptSpan_def extract_eval)
  have w: "JBool True =
             resolveOutput (category (extractSpanIO numericPromptSpan)) (attrsOf numericPromptSpan)"
    by (simp add: numericPromptSpan_def extract_eval)
  show ?thesis
    using truthy_scalar_returned_unchanged [OF v w, of 42 False 0 True] by simp
qed

end
